theory Spec2Isabelle
  imports Complex_Main "HOL-Library.Sublist"
begin

section \<open>Python values that come out of a JSON body\<close>

text \<open>
  \<open>response.json()\<close> yields \<open>None\<close>, \<open>bool\<close>, \<open>int\<close>, \<open>float\<close>, \<open>str\<close>, \<open>list\<close> and
  \<open>dict\<close> values. Integers are unbounded. A float is kept as the exact rational it
  denotes, or one of the three special values the JSON decoder accepts; the script only
  tests a float for zero and compares it with \<open>18\<close> and \<open>26\<close>, and Python makes both
  decisions on the exact value. A \<open>dict\<close> is an association list in insertion order,
  looked up with \<open>map_of\<close>; a Python \<open>dict\<close> holds each key once, and the lists with
  a repeated key are more than the script can meet.
\<close>

datatype float_val = Finite rat | PosInf | NegInf | NaN

datatype json =
    JNull
  | JBool bool
  | JInt int
  | JFloat float_val
  | JStr string
  | JArr "json list"
  | JObj "(string \<times> json) list"

text \<open>
  The subclasses of \<open>Exception\<close> that the script can meet. \<open>KeyboardInterrupt\<close> and
  \<open>SystemExit\<close> are not subclasses of \<open>Exception\<close> and are outside the model.
\<close>

datatype exn =
    KeyError string
  | TypeError
  | AttributeError
  | JSONDecodeError
  | ConnectionError
  | Timeout
  | OtherException string

subsection \<open>The operations the script applies to these values\<close>

text \<open>\<open>v[k]\<close> with a string key: a \<open>dict\<close> answers or raises \<open>KeyError\<close>; every other value raises \<open>TypeError\<close>.\<close>

fun py_getitem :: "json \<Rightarrow> string \<Rightarrow> exn + json" where
  "py_getitem (JObj kvs) k = (case map_of kvs k of None \<Rightarrow> Inl (KeyError k) | Some v \<Rightarrow> Inr v)"
| "py_getitem _ k = Inl TypeError"

text \<open>\<open>v.get(k)\<close>: \<open>None\<close> for a missing key; only a \<open>dict\<close> has the method.\<close>

fun py_get :: "json \<Rightarrow> string \<Rightarrow> exn + json" where
  "py_get (JObj kvs) k = (case map_of kvs k of None \<Rightarrow> Inr JNull | Some v \<Rightarrow> Inr v)"
| "py_get _ k = Inl AttributeError"

text \<open>
  \<open>k in v\<close> with a string \<open>k\<close>: key membership in a \<open>dict\<close>, element membership in a
  \<open>list\<close>, substring test in a \<open>str\<close>; \<open>TypeError\<close> on \<open>None\<close>, \<open>bool\<close>, \<open>int\<close>, \<open>float\<close>.
\<close>

fun py_in :: "string \<Rightarrow> json \<Rightarrow> exn + bool" where
  "py_in k (JObj kvs) = Inr (map_of kvs k \<noteq> None)"
| "py_in k (JArr xs) = Inr (JStr k \<in> set xs)"
| "py_in k (JStr s) = Inr (sublist k s)"
| "py_in k _ = Inl TypeError"

text \<open>Truth value of a value used as a condition.\<close>

fun truthy :: "json \<Rightarrow> bool" where
  "truthy JNull = False"
| "truthy (JBool b) = b"
| "truthy (JInt n) = (n \<noteq> 0)"
| "truthy (JFloat (Finite q)) = (q \<noteq> 0)"
| "truthy (JFloat _) = True"
| "truthy (JStr s) = (s \<noteq> [])"
| "truthy (JArr xs) = (xs \<noteq> [])"
| "truthy (JObj kvs) = (kvs \<noteq> [])"

text \<open>
  \<open>k <= v\<close> and \<open>v <= k\<close> for an integer literal \<open>k\<close>. A \<open>bool\<close> counts as 0 or 1, every
  comparison with NaN is false, and a value that is no number raises \<open>TypeError\<close>.
\<close>

fun int_le_py :: "int \<Rightarrow> json \<Rightarrow> exn + bool" where
  "int_le_py k (JInt n) = Inr (k \<le> n)"
| "int_le_py k (JBool b) = Inr (k \<le> (if b then 1 else 0))"
| "int_le_py k (JFloat (Finite q)) = Inr (of_int k \<le> q)"
| "int_le_py k (JFloat PosInf) = Inr True"
| "int_le_py k (JFloat NegInf) = Inr False"
| "int_le_py k (JFloat NaN) = Inr False"
| "int_le_py k _ = Inl TypeError"

fun py_le_int :: "json \<Rightarrow> int \<Rightarrow> exn + bool" where
  "py_le_int (JInt n) k = Inr (n \<le> k)"
| "py_le_int (JBool b) k = Inr ((if b then 1 else 0) \<le> k)"
| "py_le_int (JFloat (Finite q)) k = Inr (q \<le> of_int k)"
| "py_le_int (JFloat PosInf) k = Inr False"
| "py_le_int (JFloat NegInf) k = Inr True"
| "py_le_int (JFloat NaN) k = Inr False"
| "py_le_int _ k = Inl TypeError"

text \<open>
  The items a \<open>for\<close> loop draws from a value: the elements of a \<open>list\<close>, the keys of a
  \<open>dict\<close>, the one-character strings of a \<open>str\<close>; nothing else is iterable.
\<close>

fun py_iter :: "json \<Rightarrow> exn + json list" where
  "py_iter (JArr xs) = Inr xs"
| "py_iter (JObj kvs) = Inr (map (\<lambda>kv. JStr (fst kv)) kvs)"
| "py_iter (JStr s) = Inr (map (\<lambda>c. JStr [c]) s)"
| "py_iter _ = Inl TypeError"

section \<open>What the script does to the outside world\<close>

text \<open>
  Each \<open>print\<close> call is one message, carrying the values it formats:
  \<^item> \<open>Blocked\<close>: \<open>"Blocked (403). Kiva is rejecting automated requests."\<close>
  \<^item> \<open>Status c\<close>: \<open>f"STATUS: {response.status_code}"\<close>
  \<^item> \<open>Body t\<close>: \<open>response.text\<close>
  \<^item> \<open>GraphQLError v\<close>: \<open>"GraphQL Error:", data["errors"]\<close>
  \<^item> \<open>RequestFailed e\<close>: \<open>"Request failed:", e\<close>
  \<^item> \<open>Scanning p\<close>: \<open>f"Scanning page {page}..."\<close>
  \<^item> \<open>PageHeader p\<close>: \<open>f"\n--- Page {page} ---"\<close>
  \<^item> \<open>LoanDirectLine i n a\<close>: \<open>f"LoanDirect | ID: {loan['id']} | Name: {loan['name']} | Age: {loan.get('ageAtTimeOfLoan')}"\<close>
\<close>

datatype message =
    Blocked
  | Status int
  | Body string
  | GraphQLError json
  | RequestFailed exn
  | Scanning int
  | PageHeader int
  | LoanDirectLine json json json

text \<open>
  \<open>Post page per_page\<close> is one \<open>session.post\<close> to the fixed URL with the query built from
  \<open>per_page\<close> and \<open>page\<close> and the timeout of 15; \<open>Sleep d\<close> is \<open>time.sleep(d)\<close>.
\<close>

datatype event = Post int int | Print message | Sleep rat

text \<open>
  A response as far as the script reads it. \<open>json_body\<close> is what \<open>response.json()\<close>
  does: \<open>None\<close> when the body is no JSON and the call raises.
\<close>

record response =
  status_code :: int
  resp_text :: string
  json_body :: "json option"

datatype post_outcome = Raised exn | Responded response

text \<open>
  The remote service, as a parameter: what a post for \<open>page\<close> and \<open>per_page\<close> meets. No
  run of the script posts the same query twice, so a function of the query loses nothing.
\<close>

type_synonym network = "int \<Rightarrow> int \<Rightarrow> post_outcome"

section \<open>\<open>fetch_loans\<close>\<close>

text \<open>Line 60: \<open>data["data"]["fundraisingLoans"]["values"]\<close>.\<close>

definition values_of :: "json \<Rightarrow> exn + json" where
  "values_of data =
     (case py_getitem data ''data'' of
        Inl e \<Rightarrow> Inl e
      | Inr d \<Rightarrow>
          (case py_getitem d ''fundraisingLoans'' of
             Inl e \<Rightarrow> Inl e
           | Inr f \<Rightarrow> py_getitem f ''values''))"

text \<open>
  Lines 39 to 60, the body of the \<open>try\<close>, given what \<open>session.post\<close> met: the value
  returned or the exception raised, and what was printed on the way.
\<close>

definition fetch_try :: "post_outcome \<Rightarrow> (exn + json) \<times> event list" where
  "fetch_try outcome =
     (case outcome of
        Raised e \<Rightarrow> (Inl e, [])
      | Responded r \<Rightarrow>
          if status_code r = 403 then (Inr (JArr []), [Print Blocked])
          else if status_code r \<noteq> 200 then
            (Inr (JArr []), [Print (Status (status_code r)), Print (Body (resp_text r))])
          else
            (case json_body r of
               None \<Rightarrow> (Inl JSONDecodeError, [])
             | Some data \<Rightarrow>
                 (case py_in ''errors'' data of
                    Inl e \<Rightarrow> (Inl e, [])
                  | Inr True \<Rightarrow>
                      (case py_getitem data ''errors'' of
                         Inl e \<Rightarrow> (Inl e, [])
                       | Inr errs \<Rightarrow> (Inr (JArr []), [Print (GraphQLError errs)]))
                  | Inr False \<Rightarrow> (values_of data, []))))"

text \<open>
  The whole function: the post, the body, and the handler of lines 62 to 64, which
  turns every exception into a message and the empty list.
\<close>

definition fetch_loans :: "network \<Rightarrow> int \<Rightarrow> int \<Rightarrow> json \<times> event list" where
  "fetch_loans net page per_page =
     (case fetch_try (net page per_page) of
        (Inr v, out) \<Rightarrow> (v, Post page per_page # out)
      | (Inl e, out) \<Rightarrow> (JArr [], Post page per_page # out @ [Print (RequestFailed e)]))"

section \<open>\<open>get_youth_loans\<close>\<close>

text \<open>
  Line 77, the condition \<open>age and 18 <= age <= 26\<close>: a falsy \<open>age\<close> decides it at once;
  otherwise the chained comparison is \<open>18 <= age\<close> and then, only if that holds,
  \<open>age <= 26\<close>.
\<close>

definition age_test :: "json \<Rightarrow> exn + bool" where
  "age_test age =
     (if \<not> truthy age then Inr False
      else
        (case int_le_py 18 age of
           Inl e \<Rightarrow> Inl e
         | Inr False \<Rightarrow> Inr False
         | Inr True \<Rightarrow> py_le_int age 26))"

text \<open>
  Lines 75 to 82, the body of the inner loop for one \<open>loan\<close>, with the accumulator
  \<open>youth\<close>. Nothing here is inside a \<open>try\<close>: an exception leaves the function. The
  appended \<open>dict\<close> evaluates \<open>loan["id"]\<close> before \<open>loan["name"]\<close>.
\<close>

definition youth_step :: "json \<Rightarrow> json list \<Rightarrow> exn + json list" where
  "youth_step loan youth =
     (case py_getitem loan ''__typename'' of
        Inl e \<Rightarrow> Inl e
      | Inr t \<Rightarrow>
          if t = JStr ''LoanDirect'' then
            (case py_get loan ''ageAtTimeOfLoan'' of
               Inl e \<Rightarrow> Inl e
             | Inr age \<Rightarrow>
                 (case age_test age of
                    Inl e \<Rightarrow> Inl e
                  | Inr False \<Rightarrow> Inr youth
                  | Inr True \<Rightarrow>
                      (case py_getitem loan ''id'' of
                         Inl e \<Rightarrow> Inl e
                       | Inr i \<Rightarrow>
                           (case py_getitem loan ''name'' of
                              Inl e \<Rightarrow> Inl e
                            | Inr n \<Rightarrow>
                                Inr (youth @ [JObj [(''id'', i), (''name'', n), (''age'', age)]])))))
          else Inr youth)"

text \<open>Lines 74 to 82: the inner loop over the items of one page.\<close>

fun youth_loop :: "json list \<Rightarrow> json list \<Rightarrow> exn + json list" where
  "youth_loop [] youth = Inr youth"
| "youth_loop (loan # loans) youth =
     (case youth_step loan youth of
        Inl e \<Rightarrow> Inl e
      | Inr youth' \<Rightarrow> youth_loop loans youth')"

text \<open>
  Lines 70 to 84: the outer loop over the page numbers still to visit. It returns the
  list, or the exception that ended the run, and the events of the run in order. The
  call \<open>fetch_loans(page=page)\<close> takes the default \<open>per_page=20\<close>; the sleep of 1.5 closes
  every iteration that was not left by an exception.
\<close>

fun youth_pages :: "network \<Rightarrow> int list \<Rightarrow> json list \<Rightarrow> (exn + json list) \<times> event list" where
  "youth_pages net [] youth = (Inr youth, [])"
| "youth_pages net (page # pages) youth =
     (case fetch_loans net page 20 of
        (loans, out) \<Rightarrow>
          (case py_iter loans of
             Inl e \<Rightarrow> (Inl e, Print (Scanning page) # out)
           | Inr items \<Rightarrow>
               (case youth_loop items youth of
                  Inl e \<Rightarrow> (Inl e, Print (Scanning page) # out)
                | Inr youth' \<Rightarrow>
                    (case youth_pages net pages youth' of
                       (res, rest) \<Rightarrow>
                         (res, Print (Scanning page) # out @ Sleep (3 / 2) # rest)))))"

text \<open>\<open>range(1, pages + 1)\<close> is the list \<open>[1..pages]\<close>, empty when \<open>pages < 1\<close>.\<close>

definition get_youth_loans :: "network \<Rightarrow> int \<Rightarrow> (exn + json list) \<times> event list" where
  "get_youth_loans net pages = youth_pages net [1..pages] []"

section \<open>\<open>debug_age_field\<close> and the entry point\<close>

text \<open>
  Lines 94 to 99 for one \<open>loan\<close>: the line printed, if any. The f-string evaluates
  \<open>loan['id']\<close>, \<open>loan['name']\<close> and \<open>loan.get('ageAtTimeOfLoan')\<close> in this order before
  anything is printed.
\<close>

definition debug_step :: "json \<Rightarrow> exn + event list" where
  "debug_step loan =
     (case py_getitem loan ''__typename'' of
        Inl e \<Rightarrow> Inl e
      | Inr t \<Rightarrow>
          if t = JStr ''LoanDirect'' then
            (case py_getitem loan ''id'' of
               Inl e \<Rightarrow> Inl e
             | Inr i \<Rightarrow>
                 (case py_getitem loan ''name'' of
                    Inl e \<Rightarrow> Inl e
                  | Inr n \<Rightarrow>
                      (case py_get loan ''ageAtTimeOfLoan'' of
                         Inl e \<Rightarrow> Inl e
                       | Inr age \<Rightarrow> Inr [Print (LoanDirectLine i n age)])))
          else Inr [])"

fun debug_loop :: "json list \<Rightarrow> (exn + unit) \<times> event list" where
  "debug_loop [] = (Inr (), [])"
| "debug_loop (loan # loans) =
     (case debug_step loan of
        Inl e \<Rightarrow> (Inl e, [])
      | Inr out \<Rightarrow>
          (case debug_loop loans of (res, rest) \<Rightarrow> (res, out @ rest)))"

fun debug_pages :: "network \<Rightarrow> int list \<Rightarrow> (exn + unit) \<times> event list" where
  "debug_pages net [] = (Inr (), [])"
| "debug_pages net (page # pages) =
     (case fetch_loans net page 20 of
        (loans, out) \<Rightarrow>
          (case py_iter loans of
             Inl e \<Rightarrow> (Inl e, Print (PageHeader page) # out)
           | Inr items \<Rightarrow>
               (case debug_loop items of
                  (Inl e, lines) \<Rightarrow> (Inl e, Print (PageHeader page) # out @ lines)
                | (Inr u, lines) \<Rightarrow>
                    (case debug_pages net pages of
                       (res, rest) \<Rightarrow> (res, Print (PageHeader page) # out @ lines @ rest)))))"

definition debug_age_field :: "network \<Rightarrow> int \<Rightarrow> (exn + unit) \<times> event list" where
  "debug_age_field net pages = debug_pages net [1..pages]"

text \<open>Lines 102 and 103: the script run as a program.\<close>

definition main :: "network \<Rightarrow> (exn + unit) \<times> event list" where
  "main net = debug_age_field net 3"

section \<open>The vocabulary of the specification\<close>

text \<open>The field \<open>k\<close> of a record: present only in a \<open>dict\<close> that has the key.\<close>

fun field :: "json \<Rightarrow> string \<Rightarrow> json option" where
  "field (JObj kvs) k = map_of kvs k"
| "field _ k = None"

text \<open>The discriminant of the record is \<open>LoanDirect\<close>.\<close>

definition is_LoanDirect :: "json \<Rightarrow> bool" where
  "is_LoanDirect loan = (field loan ''__typename'' = Some (JStr ''LoanDirect''))"

text \<open>An age within [18, 26] inclusive: a number in the interval, and nothing else.\<close>

fun within_18_26 :: "json \<Rightarrow> bool" where
  "within_18_26 (JInt n) = (18 \<le> n \<and> n \<le> 26)"
| "within_18_26 (JFloat (Finite q)) = (18 \<le> q \<and> q \<le> 26)"
| "within_18_26 _ = False"

text \<open>The youth filter: \<open>LoanDirect\<close>, with the age field present and within [18, 26].\<close>

definition youth_match :: "json \<Rightarrow> bool" where
  "youth_match loan =
     (is_LoanDirect loan \<and>
      (case field loan ''ageAtTimeOfLoan'' of None \<Rightarrow> False | Some a \<Rightarrow> within_18_26 a))"

text \<open>The projection of a record to \<open>id\<close>, \<open>name\<close> and \<open>age\<close>, each copied as it stands.\<close>

definition value_at :: "json \<Rightarrow> string \<Rightarrow> json" where
  "value_at loan k = (case field loan k of None \<Rightarrow> JNull | Some v \<Rightarrow> v)"

definition project :: "json \<Rightarrow> json" where
  "project loan =
     JObj [(''id'', value_at loan ''id''), (''name'', value_at loan ''name''),
           (''age'', value_at loan ''ageAtTimeOfLoan'')]"

text \<open>
  A LoanRecord of the data model: a record that carries \<open>__typename\<close>, \<open>id\<close> and \<open>name\<close>,
  and whose age, when the record is a \<open>LoanDirect\<close>, is absent, null or a number.
\<close>

fun age_value :: "json \<Rightarrow> bool" where
  "age_value JNull = True"
| "age_value (JInt n) = True"
| "age_value (JFloat x) = True"
| "age_value _ = False"

definition loan_record :: "json \<Rightarrow> bool" where
  "loan_record loan =
     (field loan ''__typename'' \<noteq> None \<and> field loan ''id'' \<noteq> None \<and>
      field loan ''name'' \<noteq> None \<and>
      (if is_LoanDirect loan
       then (case field loan ''ageAtTimeOfLoan'' of None \<Rightarrow> True | Some a \<Rightarrow> age_value a)
       else True))"


text \<open>What the driver and the diagnostic path fetch for a page, and its records.\<close>

definition fetched :: "network \<Rightarrow> int \<Rightarrow> json" where
  "fetched net page = fst (fetch_loans net page 20)"

fun records_of :: "json \<Rightarrow> json list" where
  "records_of (JArr xs) = xs"
| "records_of _ = []"

fun wf_page :: "json \<Rightarrow> bool" where
  "wf_page (JArr xs) = list_all loan_record xs"
| "wf_page _ = False"


fun is_post :: "event \<Rightarrow> bool" where
  "is_post (Post page per_page) = True"
| "is_post _ = False"

text \<open>The line the diagnostic path prints for a record: id, name and the raw age.\<close>

definition debug_line :: "json \<Rightarrow> event" where
  "debug_line loan =
     Print (LoanDirectLine (value_at loan ''id'') (value_at loan ''name'')
              (value_at loan ''ageAtTimeOfLoan''))"

text \<open>
  What the driver is to return for \<open>N\<close> pages: the youth filter applied to the
  concatenation of the fetch results for pages 1 to \<open>N\<close> in increasing order, and each
  match projected, in the same order.
\<close>

definition expected_youth :: "network \<Rightarrow> int \<Rightarrow> json list" where
  "expected_youth net N =
     map project (filter youth_match (concat (map (\<lambda>p. records_of (fetched net p)) [1..N])))"

subsection \<open>Concrete services and records\<close>

text \<open>A service that meets every post with the same outcome.\<close>

definition net_const :: "post_outcome \<Rightarrow> network" where
  "net_const outcome = (\<lambda>page per_page. outcome)"

text \<open>A 200 response of the expected shape around \<open>v\<close>.\<close>

definition ok_response :: "json \<Rightarrow> response" where
  "ok_response v =
     \<lparr>status_code = 200, resp_text = [],
      json_body = Some (JObj [(''data'', JObj [(''fundraisingLoans'', JObj [(''values'', v)])])])\<rparr>"

text \<open>A service that answers page \<open>k\<close> with the \<open>k\<close>-th value and is unreachable beyond.\<close>

definition net_of_pages :: "json list \<Rightarrow> network" where
  "net_of_pages vs =
     (\<lambda>page per_page.
        if 1 \<le> page \<and> page \<le> int (length vs) then Responded (ok_response (vs ! nat (page - 1)))
        else Raised ConnectionError)"

definition response_with :: "int \<Rightarrow> string \<Rightarrow> json option \<Rightarrow> response" where
  "response_with code body parsed = \<lparr>status_code = code, resp_text = body, json_body = parsed\<rparr>"

definition errors_body :: json where
  "errors_body = JObj [(''errors'', JArr [JStr ''denied''])]"

definition direct_aged :: "json \<Rightarrow> json" where
  "direct_aged a =
     JObj [(''__typename'', JStr ''LoanDirect''), (''id'', JStr ''L7''), (''name'', JStr ''N''),
           (''ageAtTimeOfLoan'', a)]"

definition direct_no_age :: json where
  "direct_no_age =
     JObj [(''__typename'', JStr ''LoanDirect''), (''id'', JStr ''L8''), (''name'', JStr ''M'')]"

definition basket_aged :: "json \<Rightarrow> json" where
  "basket_aged a =
     JObj [(''__typename'', JStr ''LoanBasketItem''), (''id'', JStr ''L9''), (''name'', JStr ''K''),
           (''ageAtTimeOfLoan'', a)]"

definition loan_L1 :: json where
  "loan_L1 =
     JObj [(''__typename'', JStr ''LoanDirect''), (''id'', JStr ''L1''), (''name'', JStr ''A''),
           (''ageAtTimeOfLoan'', JInt 22)]"

definition loan_L2 :: json where
  "loan_L2 = JObj [(''__typename'', JStr ''LoanBasketItem''), (''id'', JStr ''L2''), (''name'', JStr ''B'')]"



definition sample_pages :: "json list" where
  "sample_pages =
     [JArr [loan_L1, loan_L2], JArr [direct_aged (JInt 18), direct_aged (JInt 30)], JArr []]"






section \<open>Facts about \<open>fetch_loans\<close>\<close>

lemma fetch_try_raises_silently: "fst (fetch_try outcome) = Inl e \<Longrightarrow> snd (fetch_try outcome) = []"
  by (auto simp: fetch_try_def split: post_outcome.splits option.splits sum.splits bool.splits if_splits)

lemma fetch_loans_of_raise:
  "fst (fetch_try (net page per_page)) = Inl e \<Longrightarrow>
     fetch_loans net page per_page = (JArr [], [Post page per_page, Print (RequestFailed e)])"
  using fetch_try_raises_silently [of "net page per_page" e]
  by (cases "fetch_try (net page per_page)") (simp add: fetch_loans_def)

lemma fetch_try_prints: "\<exists>msgs. snd (fetch_try outcome) = map Print msgs"
proof -
  have nil: "\<exists>msgs. [] = map Print msgs"
    by simp
  have one: "\<exists>msgs. [Print m] = map Print msgs" for m
    by (rule exI [of _ "[m]"]) simp
  have two: "\<exists>msgs. [Print m, Print m'] = map Print msgs" for m m'
    by (rule exI [of _ "[m, m']"]) simp
  show ?thesis
    unfolding fetch_try_def
    by (simp add: nil one two split: post_outcome.splits option.splits sum.splits bool.splits)
qed

lemma fetch_loans_events:
  "\<exists>msgs. snd (fetch_loans net page per_page) = Post page per_page # map Print msgs"
proof -
  obtain res out where pair: "fetch_try (net page per_page) = (res, out)"
    by (cases "fetch_try (net page per_page)")
  obtain msgs where "snd (fetch_try (net page per_page)) = map Print msgs"
    using fetch_try_prints by blast
  with pair have out: "out = map Print msgs"
    by simp
  show ?thesis
  proof (cases res)
    case (Inl e)
    with pair out
    have "snd (fetch_loans net page per_page) = Post page per_page # map Print (msgs @ [RequestFailed e])"
      by (simp add: fetch_loans_def)
    then show ?thesis by blast
  next
    case (Inr v)
    with pair out have "snd (fetch_loans net page per_page) = Post page per_page # map Print msgs"
      by (simp add: fetch_loans_def)
    then show ?thesis by blast
  qed
qed


lemma filter_is_post_fetch:
  "filter is_post (snd (fetch_loans net page per_page)) = [Post page per_page]"
proof -
  obtain msgs where "snd (fetch_loans net page per_page) = Post page per_page # map Print msgs"
    using fetch_loans_events by blast
  then show ?thesis by (simp add: filter_map comp_def)
qed

lemma fetched_net_of_pages:
  "1 \<le> page \<Longrightarrow> page \<le> int (length vs) \<Longrightarrow> fetched (net_of_pages vs) page = vs ! nat (page - 1)"
  by (simp add: fetched_def fetch_loans_def fetch_try_def net_of_pages_def ok_response_def values_of_def)

lemma fetch_loans_net_of_pages:
  "1 \<le> page \<Longrightarrow> page \<le> int (length vs) \<Longrightarrow>
     fetch_loans (net_of_pages vs) page per_page = (vs ! nat (page - 1), [Post page per_page])"
  by (simp add: fetch_loans_def fetch_try_def net_of_pages_def ok_response_def values_of_def)

section \<open>The claims about \<open>fetch_loans\<close>\<close>

text \<open>
  Claim C2. For every response whose status is not 200, \<open>fetch_loans\<close> returns the empty
  list and logs the status: for 403 the one block notice, which names the status, and
  for any other status the status line followed by the raw body. The one post is the
  only one: nothing is retried.
\<close>

theorem fetch_loans_non_200:
  assumes "net page per_page = Responded r" and "status_code r \<noteq> 200"
  shows "fetch_loans net page per_page =
           (JArr [], Post page per_page #
              (if status_code r = 403 then [Print Blocked]
               else [Print (Status (status_code r)), Print (Body (resp_text r))]))"
  using assms by (simp add: fetch_loans_def fetch_try_def)

theorem fetch_loans_non_200_witness:
  "fetch_loans (net_const (Responded (response_with 403 ''Forbidden'' None))) 1 20
     = (JArr [], [Post 1 20, Print Blocked])
   \<and> fetch_loans (net_const (Responded (response_with 500 ''Server Error'' None))) 2 20
     = (JArr [], [Post 2 20, Print (Status 500), Print (Body ''Server Error'')])"
  using fetch_loans_non_200 [of "net_const (Responded (response_with 403 ''Forbidden'' None))" 1 20
          "response_with 403 ''Forbidden'' None"]
        fetch_loans_non_200 [of "net_const (Responded (response_with 500 ''Server Error'' None))" 2 20
          "response_with 500 ''Server Error'' None"]
  by (simp add: net_const_def response_with_def)

text \<open>
  Claim C3, as the code has it. For every response with status 200 whose parsed body has
  a top-level \<open>errors\<close> field, \<open>fetch_loans\<close> logs the errors and returns the empty list.
  With any other status the result is the empty list as well, but the status is tested
  before the body is read.
\<close>

theorem fetch_loans_errors_field:
  assumes "net page per_page = Responded r"
    and "json_body r = Some (JObj kvs)" and "map_of kvs ''errors'' = Some errs"
  shows "fst (fetch_loans net page per_page) = JArr []
       \<and> (status_code r = 200 \<longrightarrow>
            fetch_loans net page per_page =
              (JArr [], [Post page per_page, Print (GraphQLError errs)]))"
  using assms by (simp add: fetch_loans_def fetch_try_def)

theorem fetch_loans_errors_field_witness:
  "fetch_loans (net_const (Responded (response_with 200 [] (Some errors_body)))) 1 20
     = (JArr [], [Post 1 20, Print (GraphQLError (JArr [JStr ''denied'']))])"
  using fetch_loans_errors_field [of "net_const (Responded (response_with 200 [] (Some errors_body)))" 1 20
          "response_with 200 [] (Some errors_body)" "[(''errors'', JArr [JStr ''denied''])]"
          "JArr [JStr ''denied'']"]
  by (simp add: net_const_def response_with_def errors_body_def)

text \<open>
  The claim as it was stated fails on a 403 response whose body carries an \<open>errors\<close>
  field: the block notice is all that is logged.
\<close>

theorem fetch_loans_errors_field_403:
  "json_body (response_with 403 [] (Some errors_body)) = Some (JObj [(''errors'', JArr [JStr ''denied''])])
   \<and> snd (fetch_loans (net_const (Responded (response_with 403 [] (Some errors_body)))) 1 20)
       = [Post 1 20, Print Blocked]
   \<and> Print (GraphQLError (JArr [JStr ''denied'']))
       \<notin> set (snd (fetch_loans (net_const (Responded (response_with 403 [] (Some errors_body)))) 1 20))"
  by (simp add: fetch_loans_def fetch_try_def net_const_def response_with_def errors_body_def)

text \<open>
  Claim C4. Every failure of the request or of the parse ends in the handler: a post that
  raises (connection error, timeout or any other exception), a body that is no JSON, a
  body without \<open>data\<close>, without \<open>fundraisingLoans\<close> under it or without \<open>values\<close> under that,
  and whatever else the body of the \<open>try\<close> raises. In each case \<open>fetch_loans\<close> prints the
  failure and returns the empty list; no exception reaches the caller.
\<close>

theorem fetch_loans_failure:
  "(net page per_page = Raised e \<longrightarrow>
      fetch_loans net page per_page = (JArr [], [Post page per_page, Print (RequestFailed e)]))
 \<and> (net page per_page = Responded r \<and> status_code r = 200 \<and> json_body r = None \<longrightarrow>
      fetch_loans net page per_page =
        (JArr [], [Post page per_page, Print (RequestFailed JSONDecodeError)]))
 \<and> (net page per_page = Responded r \<and> status_code r = 200 \<and> json_body r = Some (JObj kvs) \<and>
    map_of kvs ''errors'' = None \<and> map_of kvs ''data'' = None \<longrightarrow>
      fetch_loans net page per_page =
        (JArr [], [Post page per_page, Print (RequestFailed (KeyError ''data''))]))
 \<and> (net page per_page = Responded r \<and> status_code r = 200 \<and> json_body r = Some (JObj kvs) \<and>
    map_of kvs ''errors'' = None \<and> map_of kvs ''data'' = Some (JObj d) \<and>
    map_of d ''fundraisingLoans'' = None \<longrightarrow>
      fetch_loans net page per_page =
        (JArr [], [Post page per_page, Print (RequestFailed (KeyError ''fundraisingLoans''))]))
 \<and> (net page per_page = Responded r \<and> status_code r = 200 \<and> json_body r = Some (JObj kvs) \<and>
    map_of kvs ''errors'' = None \<and> map_of kvs ''data'' = Some (JObj d) \<and>
    map_of d ''fundraisingLoans'' = Some (JObj f) \<and> map_of f ''values'' = None \<longrightarrow>
      fetch_loans net page per_page =
        (JArr [], [Post page per_page, Print (RequestFailed (KeyError ''values''))]))
 \<and> (fst (fetch_try (net page per_page)) = Inl e \<longrightarrow>
      fetch_loans net page per_page = (JArr [], [Post page per_page, Print (RequestFailed e)]))"
proof -
  have raised: "fetch_try (Raised e) = (Inl e, [])"
    by (simp add: fetch_try_def)
  have no_json: "fetch_try (Responded r) = (Inl JSONDecodeError, [])"
    if "status_code r = 200" "json_body r = None"
    using that by (simp add: fetch_try_def)
  have no_values: "fetch_try (Responded r) = (values_of (JObj kvs), [])"
    if "status_code r = 200" "json_body r = Some (JObj kvs)" "map_of kvs ''errors'' = None"
    using that by (simp add: fetch_try_def)
  show ?thesis
    by (auto simp: raised no_json no_values values_of_def intro!: fetch_loans_of_raise)
qed

theorem fetch_loans_failure_witness:
  "fetch_loans (net_const (Raised ConnectionError)) 1 20
     = (JArr [], [Post 1 20, Print (RequestFailed ConnectionError)])
 \<and> fetch_loans (net_const (Raised Timeout)) 1 20
     = (JArr [], [Post 1 20, Print (RequestFailed Timeout)])
 \<and> fetch_loans (net_const (Responded (response_with 200 ''<html>'' None))) 1 20
     = (JArr [], [Post 1 20, Print (RequestFailed JSONDecodeError)])
 \<and> fetch_loans (net_const (Responded (response_with 200 [] (Some (JObj []))))) 1 20
     = (JArr [], [Post 1 20, Print (RequestFailed (KeyError ''data''))])
 \<and> fetch_loans (net_const (Responded (response_with 200 [] (Some (JObj [(''data'', JObj [])]))))) 1 20
     = (JArr [], [Post 1 20, Print (RequestFailed (KeyError ''fundraisingLoans''))])
 \<and> fetch_loans (net_const (Responded (response_with 200 []
       (Some (JObj [(''data'', JObj [(''fundraisingLoans'', JObj [])])]))))) 1 20
     = (JArr [], [Post 1 20, Print (RequestFailed (KeyError ''values''))])"
  using fetch_loans_failure [of "net_const (Raised ConnectionError)" 1 20 ConnectionError]
    fetch_loans_failure [of "net_const (Raised Timeout)" 1 20 Timeout]
    fetch_loans_failure [of "net_const (Responded (response_with 200 ''<html>'' None))" 1 20 _
      "response_with 200 ''<html>'' None"]
    fetch_loans_failure [of "net_const (Responded (response_with 200 [] (Some (JObj []))))" 1 20 _
      "response_with 200 [] (Some (JObj []))" "[]"]
    fetch_loans_failure [of "net_const (Responded (response_with 200 [] (Some (JObj [(''data'', JObj [])]))))"
      1 20 _ "response_with 200 [] (Some (JObj [(''data'', JObj [])]))" "[(''data'', JObj [])]" "[]"]
    fetch_loans_failure [of "net_const (Responded (response_with 200 []
       (Some (JObj [(''data'', JObj [(''fundraisingLoans'', JObj [])])]))))" 1 20 _
      "response_with 200 [] (Some (JObj [(''data'', JObj [(''fundraisingLoans'', JObj [])])]))"
      "[(''data'', JObj [(''fundraisingLoans'', JObj [])])]" "[(''fundraisingLoans'', JObj [])]" "[]"]
  by (simp add: net_const_def response_with_def)

text \<open>
  Claim C5. For every 200 response whose body has no \<open>errors\<close> field, \<open>fetch_loans\<close> returns
  the value found at \<open>data.fundraisingLoans.values\<close> as it stands, and prints nothing.
\<close>

theorem fetch_loans_success:
  assumes "net page per_page = Responded r" and "status_code r = 200"
    and "json_body r = Some (JObj kvs)" and "map_of kvs ''errors'' = None"
    and "map_of kvs ''data'' = Some (JObj d)"
    and "map_of d ''fundraisingLoans'' = Some (JObj f)"
    and "map_of f ''values'' = Some v"
  shows "fetch_loans net page per_page = (v, [Post page per_page])"
  using assms by (simp add: fetch_loans_def fetch_try_def values_of_def)

theorem fetch_loans_success_witness:
  "fetch_loans (net_const (Responded (ok_response (JArr [loan_L1, loan_L2])))) 1 20
     = (JArr [loan_L1, loan_L2], [Post 1 20])"
  using fetch_loans_success [of "net_const (Responded (ok_response (JArr [loan_L1, loan_L2])))" 1 20
      "ok_response (JArr [loan_L1, loan_L2])"
      "[(''data'', JObj [(''fundraisingLoans'', JObj [(''values'', JArr [loan_L1, loan_L2])])])]"
      "[(''fundraisingLoans'', JObj [(''values'', JArr [loan_L1, loan_L2])])]"
      "[(''values'', JArr [loan_L1, loan_L2])]" "JArr [loan_L1, loan_L2]"]
  by (simp add: net_const_def ok_response_def)

section \<open>Facts about the record step and the loops\<close>

lemma age_test_True: "age_test a = Inr True \<longleftrightarrow> within_18_26 a"
  by (cases a rule: within_18_26.cases)
    (auto simp: age_test_def split: sum.splits bool.splits if_splits)

lemma age_test_age_value: "age_value a \<Longrightarrow> age_test a = Inr (within_18_26 a)"
  by (cases a rule: within_18_26.cases)
    (auto simp: age_test_def split: sum.splits bool.splits if_splits)

lemma age_test_Inr: "age_test a = Inr b \<Longrightarrow> b = within_18_26 a"
  using age_test_True [of a] by (cases b) auto

lemma youth_match_fields:
  assumes "youth_match loan"
  obtains kvs a where "loan = JObj kvs" "map_of kvs ''__typename'' = Some (JStr ''LoanDirect'')"
    "map_of kvs ''ageAtTimeOfLoan'' = Some a" "age_test a = Inr True"
proof -
  from assms obtain kvs where loan: "loan = JObj kvs"
    by (cases loan) (auto simp: youth_match_def is_LoanDirect_def)
  from assms obtain a where "map_of kvs ''ageAtTimeOfLoan'' = Some a" "within_18_26 a"
    by (auto simp: loan youth_match_def split: option.splits)
  moreover from assms have "map_of kvs ''__typename'' = Some (JStr ''LoanDirect'')"
    by (simp add: loan youth_match_def is_LoanDirect_def)
  ultimately show ?thesis
    using loan that by (simp add: age_test_True)
qed

lemma loan_record_fields:
  assumes "loan_record loan"
  obtains kvs t i n where "loan = JObj kvs" "map_of kvs ''__typename'' = Some t"
    "map_of kvs ''id'' = Some i" "map_of kvs ''name'' = Some n"
  using assms by (cases loan) (auto simp: loan_record_def)

lemma youth_step_match:
  assumes "youth_match loan" and "field loan ''id'' = Some i" and "field loan ''name'' = Some n"
  shows "youth_step loan youth = Inr (youth @ [project loan])"
proof -
  from assms(1) obtain kvs a where "loan = JObj kvs"
    "map_of kvs ''__typename'' = Some (JStr ''LoanDirect'')"
    "map_of kvs ''ageAtTimeOfLoan'' = Some a" "age_test a = Inr True"
    by (rule youth_match_fields)
  with assms(2,3) show ?thesis
    by (simp add: youth_step_def project_def value_at_def)
qed



lemma youth_step_returns:
  assumes "youth_step loan youth = Inr ys"
  shows "ys = (if youth_match loan then youth @ [project loan] else youth)"
proof -
  from assms obtain kvs where loan: "loan = JObj kvs"
    by (cases loan) (auto simp: youth_step_def)
  from assms show ?thesis
    by (auto simp: loan youth_step_def youth_match_def is_LoanDirect_def project_def value_at_def
        dest: age_test_Inr split: option.splits sum.splits if_splits bool.splits)
qed

lemma youth_step_appends:
  assumes "youth_step loan youth = Inr (youth @ [y])"
  shows "youth_match loan"
  using youth_step_returns [OF assms] by (auto split: if_splits)

lemma youth_step_record:
  assumes "loan_record loan" and "\<not> youth_match loan"
  shows "youth_step loan youth = Inr youth"
proof -
  from assms obtain kvs where loan: "loan = JObj kvs"
    by (cases loan) (auto simp: loan_record_def)
  from assms show ?thesis
    by (auto simp: loan youth_step_def youth_match_def is_LoanDirect_def loan_record_def
        age_test_age_value
        split: option.splits sum.splits if_splits bool.splits)
qed



lemma youth_loop_records:
  "list_all loan_record recs \<Longrightarrow>
     youth_loop recs youth = Inr (youth @ map project (filter youth_match recs))"
proof (induction recs arbitrary: youth)
  case Nil
  then show ?case by simp
next
  case (Cons loan recs)
  then have rec: "loan_record loan" and rest: "list_all loan_record recs"
    by simp_all
  from rec obtain kvs t i n where f: "loan = JObj kvs" "map_of kvs ''id'' = Some i"
    "map_of kvs ''name'' = Some n"
    by (rule loan_record_fields)
  show ?case
  proof (cases "youth_match loan")
    case True
    then have "youth_step loan youth = Inr (youth @ [project loan])"
      using f by (simp add: youth_step_match)
    with True show ?thesis by (simp add: Cons.IH [OF rest])
  next
    case False
    then have "youth_step loan youth = Inr youth"
      using rec by (simp add: youth_step_record)
    with False show ?thesis by (simp add: Cons.IH [OF rest])
  qed
qed

lemma youth_loop_returns:
  "youth_loop items youth = Inr ys \<Longrightarrow> ys = youth @ map project (filter youth_match items)"
proof (induction items arbitrary: youth)
  case Nil
  then show ?case by simp
next
  case (Cons loan items)
  from Cons.prems obtain youth' where step: "youth_step loan youth = Inr youth'"
    and loop: "youth_loop items youth' = Inr ys"
    by (auto split: sum.splits)
  from step have "youth' = (if youth_match loan then youth @ [project loan] else youth)"
    by (rule youth_step_returns)
  with Cons.IH [OF loop] show ?case by simp
qed



lemma youth_step_JStr: "youth_step (JStr s) youth = Inl TypeError"
  by (simp add: youth_step_def)

lemma iterated_records:
  assumes "py_iter loans = Inr items" and "youth_loop items youth = Inr ys"
  shows "items = records_of loans"
proof (cases loans)
  case (JStr s)
  with assms show ?thesis by (cases s) (auto simp: youth_step_JStr)
next
  case (JObj kvs)
  with assms show ?thesis by (cases kvs) (auto simp: youth_step_JStr)
qed (use assms in auto)

lemma youth_pages_records:
  assumes "\<forall>p\<in>set ps. wf_page (fetched net p)"
  shows "youth_pages net ps youth =
           (Inr (youth @ map project (filter youth_match
                   (concat (map (\<lambda>p. records_of (fetched net p)) ps)))),
            concat (map (\<lambda>p. Print (Scanning p) # snd (fetch_loans net p 20) @ [Sleep (3 / 2)]) ps))"
  using assms
proof (induction ps arbitrary: youth)
  case Nil
  then show ?case by simp
next
  case (Cons p ps)
  then have "wf_page (fetched net p)"
    by simp
  then obtain recs where recs: "fetched net p = JArr recs" "list_all loan_record recs"
    by (cases "fetched net p") auto
  obtain loans out where fl: "fetch_loans net p 20 = (loans, out)"
    by (cases "fetch_loans net p 20")
  with recs have loans: "loans = JArr recs"
    by (simp add: fetched_def)
  from Cons.prems have rest: "\<forall>p\<in>set ps. wf_page (fetched net p)"
    by simp
  show ?case
    using recs by (simp add: fl loans youth_loop_records Cons.IH [OF rest])
qed

lemma youth_pages_returns:
  "fst (youth_pages net ps youth) = Inr ys \<Longrightarrow>
     ys = youth @ map project (filter youth_match
            (concat (map (\<lambda>p. records_of (fetched net p)) ps)))"
proof (induction ps arbitrary: youth)
  case Nil
  then show ?case by simp
next
  case (Cons p ps)
  obtain loans out where fl: "fetch_loans net p 20 = (loans, out)"
    by (cases "fetch_loans net p 20")
  then have fetched: "fetched net p = loans"
    by (simp add: fetched_def)
  from Cons.prems obtain items where items: "py_iter loans = Inr items"
    by (auto simp: fl split: sum.splits)
  with Cons.prems obtain youth' where loop: "youth_loop items youth = Inr youth'"
    by (auto simp: fl split: sum.splits)
  with Cons.prems items have rest: "fst (youth_pages net ps youth') = Inr ys"
    by (auto simp: fl split: prod.splits)
  from items loop have "items = records_of loans"
    by (rule iterated_records)
  moreover from loop have "youth' = youth @ map project (filter youth_match items)"
    by (rule youth_loop_returns)
  ultimately show ?case
    using Cons.IH [OF rest] by (simp add: fetched)
qed






lemma posts_of_youth_pages:
  "filter is_post
     (concat (map (\<lambda>p. Print (Scanning p) # snd (fetch_loans net p 20) @ [Sleep (3 / 2)]) ps))
   = map (\<lambda>p. Post p 20) ps"
  by (induction ps) (simp_all add: filter_is_post_fetch)

lemma debug_step_record:
  assumes "loan_record loan"
  shows "debug_step loan = Inr (if is_LoanDirect loan then [debug_line loan] else [])"
proof -
  from assms obtain kvs t i n where "loan = JObj kvs" "map_of kvs ''__typename'' = Some t"
    "map_of kvs ''id'' = Some i" "map_of kvs ''name'' = Some n"
    by (rule loan_record_fields)
  then show ?thesis
    by (simp add: debug_step_def is_LoanDirect_def debug_line_def value_at_def split: option.splits)
qed

lemma debug_loop_records:
  "list_all loan_record recs \<Longrightarrow>
     debug_loop recs = (Inr (), map debug_line (filter is_LoanDirect recs))"
  by (induction recs) (simp_all add: debug_step_record)

lemma debug_pages_records:
  assumes "\<forall>p\<in>set ps. wf_page (fetched net p)"
  shows "debug_pages net ps =
           (Inr (),
            concat (map (\<lambda>p. Print (PageHeader p) # snd (fetch_loans net p 20) @
                           map debug_line (filter is_LoanDirect (records_of (fetched net p)))) ps))"
  using assms
proof (induction ps)
  case Nil
  then show ?case by simp
next
  case (Cons p ps)
  then have "wf_page (fetched net p)"
    by simp
  then obtain recs where recs: "fetched net p = JArr recs" "list_all loan_record recs"
    by (cases "fetched net p") auto
  obtain loans out where fl: "fetch_loans net p 20 = (loans, out)"
    by (cases "fetch_loans net p 20")
  with recs have loans: "loans = JArr recs"
    by (simp add: fetched_def)
  from Cons.prems have rest: "\<forall>p\<in>set ps. wf_page (fetched net p)"
    by simp
  show ?case
    using recs by (simp add: fl loans debug_loop_records Cons.IH [OF rest])
qed

lemma posts_of_debug_lines: "filter is_post (map debug_line recs) = []"
  by (induction recs) (simp_all add: debug_line_def)

lemma posts_of_debug_pages:
  "filter is_post
     (concat (map (\<lambda>p. Print (PageHeader p) # snd (fetch_loans net p 20) @
                    map debug_line (filter is_LoanDirect (records_of (fetched net p)))) ps))
   = map (\<lambda>p. Post p 20) ps"
  by (induction ps) (simp_all add: filter_is_post_fetch posts_of_debug_lines)

lemma upto_1_3: "[1..3] = [1, 2, 3]"
  by (simp add: upto_rec1)

section \<open>The claims about \<open>get_youth_loans\<close>\<close>

text \<open>
  Claim C1. For a record that carries \<open>id\<close> and \<open>name\<close>, as every LoanRecord of the data
  model does, the step of the driver appends a youth loan if and only if the discriminant
  is \<open>LoanDirect\<close> and the age field is present and within [18, 26]; what it appends is
  the projection of the record; and a LoanRecord that does not match leaves the
  accumulator as it was. So age 18 is included, ages 17 and 27, a null and an absent age
  are excluded, and so is any record of another kind, whatever its age field.
\<close>

theorem youth_step_iff:
  assumes "field loan ''id'' = Some i" and "field loan ''name'' = Some n"
  shows "((\<exists>y. youth_step loan youth = Inr (youth @ [y])) \<longleftrightarrow> youth_match loan)
       \<and> (youth_match loan \<longrightarrow> youth_step loan youth = Inr (youth @ [project loan]))
       \<and> (\<not> youth_match loan \<and> loan_record loan \<longrightarrow> youth_step loan youth = Inr youth)"
  using assms youth_step_match youth_step_appends youth_step_record by blast

theorem youth_step_iff_witness:
  "youth_step (direct_aged (JInt 18)) []
     = Inr [JObj [(''id'', JStr ''L7''), (''name'', JStr ''N''), (''age'', JInt 18)]]
 \<and> youth_step (direct_aged (JInt 26)) []
     = Inr [JObj [(''id'', JStr ''L7''), (''name'', JStr ''N''), (''age'', JInt 26)]]
 \<and> youth_step (direct_aged (JInt 17)) [] = Inr []
 \<and> youth_step (direct_aged (JInt 27)) [] = Inr []
 \<and> youth_step (direct_aged JNull) [] = Inr []
 \<and> youth_step direct_no_age [] = Inr []
 \<and> youth_step (basket_aged (JInt 22)) [] = Inr []"
  using youth_step_iff [of "direct_aged (JInt 18)" "JStr ''L7''" "JStr ''N''" "[]"]
    youth_step_iff [of "direct_aged (JInt 26)" "JStr ''L7''" "JStr ''N''" "[]"]
    youth_step_iff [of "direct_aged (JInt 17)" "JStr ''L7''" "JStr ''N''" "[]"]
    youth_step_iff [of "direct_aged (JInt 27)" "JStr ''L7''" "JStr ''N''" "[]"]
    youth_step_iff [of "direct_aged JNull" "JStr ''L7''" "JStr ''N''" "[]"]
    youth_step_iff [of direct_no_age "JStr ''L8''" "JStr ''M''" "[]"]
    youth_step_iff [of "basket_aged (JInt 22)" "JStr ''L9''" "JStr ''K''" "[]"]
  by (simp add: direct_aged_def direct_no_age_def basket_aged_def youth_match_def is_LoanDirect_def
      loan_record_def project_def value_at_def)

text \<open>
  Claim C7. When the fetch of page 1 returns the \<open>LoanDirect\<close> record L1 of age 22 and the
  \<open>LoanBasketItem\<close> record L2, the driver run for that page returns exactly the one
  projection of L1.
\<close>

theorem get_youth_loans_example:
  assumes "fst (fetch_loans net 1 20) = JArr [loan_L1, loan_L2]"
  shows "fst (get_youth_loans net 1)
           = Inr [JObj [(''id'', JStr ''L1''), (''name'', JStr ''A''), (''age'', JInt 22)]]"
proof -
  obtain loans out where fl: "fetch_loans net 1 20 = (loans, out)"
    by (cases "fetch_loans net 1 20")
  with assms have loans: "loans = JArr [loan_L1, loan_L2]"
    by simp
  have L1: "youth_step loan_L1 []
              = Inr [JObj [(''id'', JStr ''L1''), (''name'', JStr ''A''), (''age'', JInt 22)]]"
    by (simp add: youth_step_def loan_L1_def age_test_def)
  have L2: "youth_step loan_L2 ys = Inr ys" for ys
    by (simp add: youth_step_def loan_L2_def)
  show ?thesis
    by (simp add: get_youth_loans_def fl loans L1 L2)
qed

theorem get_youth_loans_example_witness:
  "fst (get_youth_loans (net_of_pages [JArr [loan_L1, loan_L2]]) 1)
     = Inr [JObj [(''id'', JStr ''L1''), (''name'', JStr ''A''), (''age'', JInt 22)]]"
  using get_youth_loans_example [of "net_of_pages [JArr [loan_L1, loan_L2]]"]
  by (simp add: fetch_loans_net_of_pages)

text \<open>
  Claim C10. For every page count \<open>N\<close>: when each of the pages 1 to \<open>N\<close> fetches a list of
  LoanRecords, the driver returns the projection of the youth filter applied to the
  concatenation of the fetch results in increasing page order; and whatever the pages
  hold, a list that the driver returns is that one. Matches are appended in order, none
  is dropped, repeated or reordered, and id, name and age are copied as they stand.
\<close>

theorem get_youth_loans_projection:
  "((\<forall>p\<in>set [1..N]. wf_page (fetched net p)) \<longrightarrow>
      fst (get_youth_loans net N) = Inr (expected_youth net N))
 \<and> (fst (get_youth_loans net N) = Inr ys \<longrightarrow> ys = expected_youth net N)"
proof -
  have "fst (get_youth_loans net N) = Inr (expected_youth net N)"
    if "\<forall>p\<in>set [1..N]. wf_page (fetched net p)"
    using youth_pages_records [OF that, of "[]"]
    by (simp add: get_youth_loans_def expected_youth_def)
  moreover have "ys = expected_youth net N" if "fst (get_youth_loans net N) = Inr ys"
    using youth_pages_returns [of net "[1..N]" "[]" ys] that
    by (simp add: get_youth_loans_def expected_youth_def)
  ultimately show ?thesis by blast
qed

theorem get_youth_loans_projection_witness:
  "fst (get_youth_loans (net_of_pages sample_pages) 3)
     = Inr [JObj [(''id'', JStr ''L1''), (''name'', JStr ''A''), (''age'', JInt 22)],
            JObj [(''id'', JStr ''L7''), (''name'', JStr ''N''), (''age'', JInt 18)]]"
proof -
  have pages: "fetched (net_of_pages sample_pages) 1 = JArr [loan_L1, loan_L2]"
    "fetched (net_of_pages sample_pages) 2 = JArr [direct_aged (JInt 18), direct_aged (JInt 30)]"
    "fetched (net_of_pages sample_pages) 3 = JArr []"
    by (simp_all add: fetched_net_of_pages sample_pages_def)
  have records: "loan_record loan_L1" "loan_record loan_L2"
    "loan_record (direct_aged (JInt 18))" "loan_record (direct_aged (JInt 30))"
    by (simp_all add: loan_record_def is_LoanDirect_def loan_L1_def loan_L2_def direct_aged_def)
  have matches: "youth_match loan_L1" "\<not> youth_match loan_L2"
    "youth_match (direct_aged (JInt 18))" "\<not> youth_match (direct_aged (JInt 30))"
    by (simp_all add: youth_match_def is_LoanDirect_def loan_L1_def loan_L2_def direct_aged_def)
  have projected:
    "project loan_L1 = JObj [(''id'', JStr ''L1''), (''name'', JStr ''A''), (''age'', JInt 22)]"
    "project (direct_aged (JInt 18))
       = JObj [(''id'', JStr ''L7''), (''name'', JStr ''N''), (''age'', JInt 18)]"
    by (simp_all add: project_def value_at_def loan_L1_def direct_aged_def)
  have wf: "\<forall>p\<in>set [1..3]. wf_page (fetched (net_of_pages sample_pages) p)"
    by (simp add: upto_1_3 pages records)
  have expected: "expected_youth (net_of_pages sample_pages) 3
      = [JObj [(''id'', JStr ''L1''), (''name'', JStr ''A''), (''age'', JInt 22)],
         JObj [(''id'', JStr ''L7''), (''name'', JStr ''N''), (''age'', JInt 18)]]"
    by (simp add: expected_youth_def upto_1_3 pages matches projected)
  from get_youth_loans_projection [of 3 "net_of_pages sample_pages" "[]", THEN conjunct1] wf
  show ?thesis
    by (simp only: expected)
qed


lemma sample_pages_fetched:
  "fetched (net_of_pages sample_pages) 1 = JArr [loan_L1, loan_L2]"
  "fetched (net_of_pages sample_pages) 2 = JArr [direct_aged (JInt 18), direct_aged (JInt 30)]"
  "fetched (net_of_pages sample_pages) 3 = JArr []"
  by (simp_all add: fetched_net_of_pages sample_pages_def)

lemma sample_records:
  "loan_record loan_L1" "loan_record loan_L2"
  "loan_record (direct_aged (JInt 18))" "loan_record (direct_aged (JInt 30))"
  by (simp_all add: loan_record_def is_LoanDirect_def loan_L1_def loan_L2_def direct_aged_def)

lemma sample_pages_wf: "\<forall>p\<in>set [1..3]. wf_page (fetched (net_of_pages sample_pages) p)"
  by (simp add: upto_1_3 sample_pages_fetched sample_records)









section \<open>The claim about the entry point\<close>

text \<open>
  Claim C8. The program run as the main entry point is the diagnostic path for 3 pages.
  When the pages 1 to 3 fetch lists of LoanRecords, that path prints, for each page in
  order, the page header, what the fetch of the page prints, and one line with id, name
  and raw age for every \<open>LoanDirect\<close> record of the page, unfiltered; it returns nothing.
  Its fetch calls are those of the driver for 3 pages: pages 1, 2, 3 with 20 per page.
\<close>

theorem main_debug_three_pages:
  "main net = debug_age_field net 3
 \<and> ((\<forall>p\<in>set [1..3]. wf_page (fetched net p)) \<longrightarrow>
      main net =
        (Inr (),
         concat (map (\<lambda>p. Print (PageHeader p) # snd (fetch_loans net p 20) @
                        map debug_line (filter is_LoanDirect (records_of (fetched net p))))
                   [1, 2, 3]))
    \<and> filter is_post (snd (main net)) = [Post 1 20, Post 2 20, Post 3 20]
    \<and> filter is_post (snd (get_youth_loans net 3)) = [Post 1 20, Post 2 20, Post 3 20])"
proof -
  have run: "main net =
        (Inr (),
         concat (map (\<lambda>p. Print (PageHeader p) # snd (fetch_loans net p 20) @
                        map debug_line (filter is_LoanDirect (records_of (fetched net p))))
                   [1, 2, 3]))"
    and posts: "filter is_post (snd (main net)) = [Post 1 20, Post 2 20, Post 3 20]"
    and driver: "filter is_post (snd (get_youth_loans net 3)) = [Post 1 20, Post 2 20, Post 3 20]"
    if wf: "\<forall>p\<in>set [1..3]. wf_page (fetched net p)"
  proof -
    show r: "main net =
        (Inr (),
         concat (map (\<lambda>p. Print (PageHeader p) # snd (fetch_loans net p 20) @
                        map debug_line (filter is_LoanDirect (records_of (fetched net p))))
                   [1, 2, 3]))"
      using debug_pages_records [OF wf]
      by (simp only: main_def debug_age_field_def upto_1_3)
    have "filter is_post (snd (main net)) = map (\<lambda>p. Post p 20) [1, 2, 3]"
      by (simp only: r snd_conv posts_of_debug_pages)
    then show "filter is_post (snd (main net)) = [Post 1 20, Post 2 20, Post 3 20]"
      by simp
    have "filter is_post (snd (get_youth_loans net 3)) = map (\<lambda>p. Post p 20) [1, 2, 3]"
      using youth_pages_records [OF wf, of "[]"]
      by (simp only: get_youth_loans_def upto_1_3 snd_conv posts_of_youth_pages)
    then show "filter is_post (snd (get_youth_loans net 3)) = [Post 1 20, Post 2 20, Post 3 20]"
      by simp
  qed
  have "main net = debug_age_field net 3"
    by (simp add: main_def)
  with run posts driver show ?thesis by blast
qed

theorem main_debug_three_pages_witness:
  "main (net_of_pages sample_pages) =
     (Inr (),
      [Print (PageHeader 1), Post 1 20,
       Print (LoanDirectLine (JStr ''L1'') (JStr ''A'') (JInt 22)),
       Print (PageHeader 2), Post 2 20,
       Print (LoanDirectLine (JStr ''L7'') (JStr ''N'') (JInt 18)),
       Print (LoanDirectLine (JStr ''L7'') (JStr ''N'') (JInt 30)),
       Print (PageHeader 3), Post 3 20])"
proof -
  have direct: "is_LoanDirect loan_L1" "\<not> is_LoanDirect loan_L2"
    "is_LoanDirect (direct_aged (JInt 18))" "is_LoanDirect (direct_aged (JInt 30))"
    by (simp_all add: is_LoanDirect_def loan_L1_def loan_L2_def direct_aged_def)
  have lines: "debug_line loan_L1 = Print (LoanDirectLine (JStr ''L1'') (JStr ''A'') (JInt 22))"
    "debug_line (direct_aged (JInt 18)) = Print (LoanDirectLine (JStr ''L7'') (JStr ''N'') (JInt 18))"
    "debug_line (direct_aged (JInt 30)) = Print (LoanDirectLine (JStr ''L7'') (JStr ''N'') (JInt 30))"
    by (simp_all add: debug_line_def value_at_def loan_L1_def direct_aged_def)
  have prints: "snd (fetch_loans (net_of_pages sample_pages) 1 20) = [Post 1 20]"
    "snd (fetch_loans (net_of_pages sample_pages) 2 20) = [Post 2 20]"
    "snd (fetch_loans (net_of_pages sample_pages) 3 20) = [Post 3 20]"
    by (simp_all add: fetch_loans_net_of_pages sample_pages_def)
  from main_debug_three_pages [of "net_of_pages sample_pages", THEN conjunct2] sample_pages_wf
  have "main (net_of_pages sample_pages) =
        (Inr (),
         concat (map (\<lambda>p. Print (PageHeader p) # snd (fetch_loans (net_of_pages sample_pages) p 20) @
                        map debug_line (filter is_LoanDirect
                          (records_of (fetched (net_of_pages sample_pages) p))))
                   [1, 2, 3]))"
    by blast
  then show ?thesis
    by (simp add: sample_pages_fetched direct lines prints)
qed

end
